theory Spec2Isabelle
  imports Main "HOL-Library.Word" "HOL-Library.AList"
begin

text \<open>
  A model of \<open>backend/main.py\<close>: the table-name sanitizer \<open>_safe_table_name\<close>, the
  upload endpoint \<open>upload_file\<close> and the ask endpoint \<open>ask_question\<close>. Exceptions are
  values of a sum type, the file system is passed explicitly, and the libraries the
  endpoints call (pandas, SQLAlchemy, the LangChain agent, \<open>ast.literal_eval\<close>) are
  parameters.
\<close>

section \<open>Python strings\<close>

text \<open>
  A Python \<open>str\<close> is modelled as a \<open>string\<close> whose characters are code points
  (not UTF-8 bytes); the model covers the code points 0 to 255. On that range
  \<open>str.lower\<close>, \<open>str.strip\<close> and the regular-expression classes of the source
  are as defined below.
\<close>

definition py_isspace :: "char \<Rightarrow> bool" where
  \<comment> \<open>\<open>str.isspace\<close> on one character: TAB to CR, FS to US, space, NEL, NBSP\<close>
  "py_isspace c =
     (let n = (of_char c :: nat)
      in (9 \<le> n \<and> n \<le> 13) \<or> (28 \<le> n \<and> n \<le> 32) \<or> n = 133 \<or> n = 160)"

definition py_lower_char :: "char \<Rightarrow> char" where
  \<comment> \<open>\<open>A\<close> to \<open>Z\<close> and the capital letters of Latin-1 (all of C0 to DE but the multiplication sign)\<close>
  "py_lower_char c =
     (let n = (of_char c :: nat)
      in if (65 \<le> n \<and> n \<le> 90) \<or> (192 \<le> n \<and> n \<le> 222 \<and> n \<noteq> 215)
         then char_of (n + 32) else c)"

definition py_lower :: "string \<Rightarrow> string" where
  "py_lower s = map py_lower_char s"

definition py_strip :: "string \<Rightarrow> string" where
  \<comment> \<open>\<open>s.strip()\<close>: whitespace removed at both ends\<close>
  "py_strip s = rev (dropWhile py_isspace (rev (dropWhile py_isspace s)))"

definition py_startswith :: "string \<Rightarrow> string \<Rightarrow> bool" where
  "py_startswith s p = (take (length p) s = p)"

definition py_endswith :: "string \<Rightarrow> string \<Rightarrow> bool" where
  "py_endswith s p = (length p \<le> length s \<and> drop (length s - length p) s = p)"

section \<open>The table-name sanitizer\<close>

definition in_class :: "char \<Rightarrow> bool" where
  \<comment> \<open>the characters of \<open>[0-9a-z_]\<close>\<close>
  "in_class c =
     (let n = (of_char c :: nat)
      in (48 \<le> n \<and> n \<le> 57) \<or> (97 \<le> n \<and> n \<le> 122) \<or> n = 95)"

definition is_digit :: "char \<Rightarrow> bool" where
  \<comment> \<open>\<open>\d\<close>: on the modelled code points, the decimal digits are \<open>0\<close> to \<open>9\<close>\<close>
  "is_digit c = (let n = (of_char c :: nat) in 48 \<le> n \<and> n \<le> 57)"

function re_sub_class :: "string \<Rightarrow> string" where
  \<comment> \<open>\<open>re.sub(r"[^0-9a-z_]+", "_", name)\<close>: scanning from the left, a character of the
      class is copied; at any other character the greedy \<open>+\<close> takes all the characters
      outside the class that follow, and the match is replaced by one underscore\<close>
  "re_sub_class [] = []"
| "re_sub_class (c # cs) =
     (if in_class c then c # re_sub_class cs
      else CHR ''_'' # re_sub_class (dropWhile (\<lambda>d. \<not> in_class d) cs))"
  by pat_completeness auto
termination
  by (relation "measure length") (auto simp: less_Suc_eq_le length_dropWhile_le)

definition re_match_digit :: "string \<Rightarrow> bool" where
  \<comment> \<open>\<open>re.match(r"^\d", name)\<close> as a truth value\<close>
  "re_match_digit s = (case s of [] \<Rightarrow> False | c # _ \<Rightarrow> is_digit c)"

definition safe_table_name :: "string \<Rightarrow> string" where
  \<comment> \<open>\<open>_safe_table_name\<close>\<close>
  "safe_table_name name0 =
     (let name1 = py_lower (py_strip name0);
          name2 = re_sub_class name1;
          name3 = (if re_match_digit name2 then ''t_'' @ name2 else name2)
      in if name3 = [] then ''table1'' else name3)"

definition is_ident_start :: "char \<Rightarrow> bool" where
  \<comment> \<open>the characters of \<open>[a-z_]\<close>\<close>
  "is_ident_start c = (let n = (of_char c :: nat) in (97 \<le> n \<and> n \<le> 122) \<or> n = 95)"

definition matches_ident :: "string \<Rightarrow> bool" where
  \<comment> \<open>the whole string matches \<open>^[a-z_][a-z0-9_]*$\<close> (no trailing newline allowed)\<close>
  "matches_ident s = (case s of [] \<Rightarrow> False | c # cs \<Rightarrow> is_ident_start c \<and> list_all in_class cs)"

subsection \<open>The sanitizer as the specification words it\<close>

fun spec_replace_runs :: "bool \<Rightarrow> string \<Rightarrow> string" where
  \<comment> \<open>every maximal run of characters outside \<open>[0-9a-z_]\<close> becomes one underscore; the
      flag says that the previous character belonged to such a run\<close>
  "spec_replace_runs in_run [] = []"
| "spec_replace_runs in_run (c # cs) =
     (if in_class c then c # spec_replace_runs False cs
      else if in_run then spec_replace_runs True cs
      else CHR ''_'' # spec_replace_runs True cs)"

definition spec_sanitize :: "string \<Rightarrow> string" where
  \<comment> \<open>lowercase; replace the runs; prefix \<open>t_\<close> before a leading digit; \<open>table1\<close> when empty\<close>
  "spec_sanitize raw =
     (let lowered = py_lower raw;
          replaced = spec_replace_runs False lowered;
          prefixed = (case replaced of [] \<Rightarrow> replaced
                      | c # _ \<Rightarrow> if is_digit c then ''t_'' @ replaced else replaced)
      in if prefixed = [] then ''table1'' else prefixed)"

section \<open>Python values and exceptions\<close>

text \<open>
  The values that \<open>ast.literal_eval\<close> returns and that an agent trace holds. A float is
  its IEEE 754 bit pattern; \<open>PObj\<close> is any other object, given by its attributes (an
  \<open>AgentAction\<close> has \<open>tool\<close>, \<open>tool_input\<close> and \<open>log\<close>). A \<open>dict\<close> is an association
  list in insertion order.
\<close>

datatype pyval =
    PNone
  | PBool bool
  | PInt int
  | PFloat "64 word"
  | PComplex "64 word" "64 word"
  | PStr string
  | PBytes string
  | PEllipsis
  | PList "pyval list"
  | PTuple "pyval list"
  | PDict "(pyval \<times> pyval) list"
  | PSet "pyval list"
  | PObj "(string \<times> pyval) list"

datatype exn =
    HTTPException nat detail
  | ValueError
  | SyntaxError
  | TypeError
  | ValidationError
  | OtherException string
and detail =
    Lit string
  | Fmt string exn

text \<open>
  Every constructor of \<open>exn\<close> is a subclass of Python's \<open>Exception\<close>, so
  \<open>except Exception\<close> catches each of them. \<open>Fmt p e\<close> is the f-string
  \<open>f"{p}{e}"\<close>; how the exception \<open>e\<close> prints is left to its library.
\<close>

fun status_code :: "exn \<Rightarrow> nat option" where
  "status_code (HTTPException n d) = Some n"
| "status_code e = None"

fun py_bool :: "pyval \<Rightarrow> bool" where
  \<comment> \<open>the truth value of an object, as \<open>if x\<close> takes it\<close>
  "py_bool PNone = False"
| "py_bool (PBool b) = b"
| "py_bool (PInt i) = (i \<noteq> 0)"
| "py_bool (PFloat w) = (take_bit 63 w \<noteq> 0)"
| "py_bool (PComplex re im) = (\<not> (take_bit 63 re = 0 \<and> take_bit 63 im = 0))"
| "py_bool (PStr s) = (s \<noteq> [])"
| "py_bool (PBytes s) = (s \<noteq> [])"
| "py_bool PEllipsis = True"
| "py_bool (PList xs) = (xs \<noteq> [])"
| "py_bool (PTuple xs) = (xs \<noteq> [])"
| "py_bool (PDict kvs) = (kvs \<noteq> [])"
| "py_bool (PSet xs) = (xs \<noteq> [])"
| "py_bool (PObj attrs) = True"

fun py_iter :: "pyval \<Rightarrow> pyval list option" where
  \<comment> \<open>the items that iterating over an object yields; \<open>None\<close> where \<open>iter\<close> raises
      \<open>TypeError\<close>\<close>
  "py_iter (PStr s) = Some (map (\<lambda>c. PStr [c]) s)"
| "py_iter (PBytes s) = Some (map (\<lambda>c. PInt (of_char c)) s)"
| "py_iter (PList xs) = Some xs"
| "py_iter (PTuple xs) = Some xs"
| "py_iter (PDict kvs) = Some (map fst kvs)"
| "py_iter (PSet xs) = Some xs"
| "py_iter v = None"

fun is_list :: "pyval \<Rightarrow> bool" where
  "is_list (PList xs) = True"
| "is_list v = False"

fun is_list_or_tuple :: "pyval \<Rightarrow> bool" where
  \<comment> \<open>\<open>isinstance(v, (list, tuple))\<close>\<close>
  "is_list_or_tuple (PList xs) = True"
| "is_list_or_tuple (PTuple xs) = True"
| "is_list_or_tuple v = False"

fun is_dict :: "pyval \<Rightarrow> bool" where
  \<comment> \<open>the value is a \<open>dict\<close> (a mapping)\<close>
  "is_dict (PDict kvs) = True"
| "is_dict v = False"

fun seq_items :: "pyval \<Rightarrow> pyval list" where
  \<comment> \<open>the items of a list or tuple; used under \<open>is_list_or_tuple\<close> only\<close>
  "seq_items (PList xs) = xs"
| "seq_items (PTuple xs) = xs"
| "seq_items v = []"

definition hasattr :: "pyval \<Rightarrow> string \<Rightarrow> bool" where
  "hasattr v a = (case v of PObj attrs \<Rightarrow> map_of attrs a \<noteq> None | _ \<Rightarrow> False)"

definition getattr :: "pyval \<Rightarrow> string \<Rightarrow> pyval option" where
  "getattr v a = (case v of PObj attrs \<Rightarrow> map_of attrs a | _ \<Rightarrow> None)"

definition dict_get :: "(string \<times> pyval) list \<Rightarrow> string \<Rightarrow> pyval \<Rightarrow> pyval" where
  \<comment> \<open>\<open>d.get(k, default)\<close> on a dict with string keys\<close>
  "dict_get d k dflt = (case map_of d k of None \<Rightarrow> dflt | Some v \<Rightarrow> v)"

definition py_dict :: "(pyval \<times> pyval) list \<Rightarrow> (pyval \<times> pyval) list" where
  \<comment> \<open>\<open>dict(pairs)\<close>: a later pair with a key already present replaces its value in place\<close>
  "py_dict pairs = foldl (\<lambda>d (k, v). AList.update k v d) [] pairs"

definition digit_char :: "nat \<Rightarrow> char" where
  "digit_char d = char_of (48 + d)"

function str_nat :: "nat \<Rightarrow> string" where
  \<comment> \<open>\<open>str(n)\<close> for a non-negative integer\<close>
  "str_nat n = (if n < 10 then [digit_char n] else str_nat (n div 10) @ [digit_char (n mod 10)])"
  by pat_completeness auto
termination
  by (relation "measure id") auto

section \<open>Paths and the file system\<close>

text \<open>
  The file system is a map from paths to file contents (of an abstract type \<open>'f\<close>);
  the test for existence and the removal of an existing file always succeed.
  \<open>BASE_DIR\<close>, the directory of the module, is a parameter \<open>base\<close>.
\<close>

definition os_path_join :: "string \<Rightarrow> string \<Rightarrow> string" where
  \<comment> \<open>\<open>os.path.join\<close> of two components (POSIX)\<close>
  "os_path_join a b =
     (if py_startswith b ''/'' then b
      else if a = [] \<or> py_endswith a ''/'' then a @ b
      else a @ ''/'' @ b)"

definition rfind :: "char \<Rightarrow> string \<Rightarrow> int" where
  \<comment> \<open>\<open>s.rfind(c)\<close>: the last index of \<open>c\<close>, or -1\<close>
  "rfind c s =
     (case filter (\<lambda>i. s ! i = c) (rev [0..<length s]) of [] \<Rightarrow> - 1 | i # _ \<Rightarrow> int i)"

definition splitext :: "string \<Rightarrow> string \<times> string" where
  \<comment> \<open>\<open>os.path.splitext\<close> (POSIX): split at the last dot of the last component, unless
      only dots come before it there\<close>
  "splitext p =
     (let sepIndex = rfind CHR ''/'' p;
          dotIndex = rfind CHR ''.'' p
      in if dotIndex > sepIndex \<and>
            list_ex (\<lambda>c. c \<noteq> CHR ''.'')
              (take (nat (dotIndex - (sepIndex + 1))) (drop (nat (sepIndex + 1)) p))
         then (take (nat dotIndex) p, drop (nat dotIndex) p)
         else (p, []))"

definition UPLOAD_DIR :: "string \<Rightarrow> string" where
  "UPLOAD_DIR base = os_path_join base ''uploads''"

definition DB_DIR :: "string \<Rightarrow> string" where
  "DB_DIR base = os_path_join base ''databases''"

definition saved_path_of :: "string \<Rightarrow> string \<Rightarrow> string \<Rightarrow> string" where
  \<comment> \<open>\<open>os.path.join(UPLOAD_DIR, f"{session_id}_{filename}")\<close>\<close>
  "saved_path_of base sid filename = os_path_join (UPLOAD_DIR base) (sid @ ''_'' @ filename)"

definition db_path_of :: "string \<Rightarrow> string \<Rightarrow> string" where
  \<comment> \<open>\<open>os.path.join(DB_DIR, f"{session_id}.db")\<close>\<close>
  "db_path_of base sid = os_path_join (DB_DIR base) (sid @ ''.db'')"

definition remove_if_exists :: "string \<Rightarrow> (string \<rightharpoonup> 'f) \<Rightarrow> (string \<rightharpoonup> 'f)" where
  \<comment> \<open>\<open>if os.path.exists(p): os.remove(p)\<close>\<close>
  "remove_if_exists p fs = (if fs p \<noteq> None then fs(p := None) else fs)"

section \<open>The upload endpoint\<close>

text \<open>
  The operating system, pandas and SQLAlchemy are collaborators, given as parameters.
  \<open>write_file\<close> is \<open>open(saved_path, "wb")\<close> with \<open>f.write(contents)\<close>: given the path,
  the contents and what the path holds before, it is \<open>None\<close> when the file was written,
  or the exception raised with what the path holds then (nothing when \<open>open\<close> failed, a
  part of the contents when \<open>write\<close> did). \<open>read_csv\<close> and \<open>read_excel\<close> parse the
  contents of the saved file or raise; \<open>to_sql\<close> is given the table name, the data
  frame and the present contents of the store file (if it exists), and gives back the
  exception it raised (if any) and the contents it left (if any). \<open>create_engine\<close>
  opens no file and is part of \<open>to_sql\<close>. The session id
  (\<open>uuid4().hex\<close>) and the bytes that \<open>file.read()\<close> returned are parameters.
\<close>

record ('f, 'df) ingest_env =
  write_file :: "string \<Rightarrow> 'f \<Rightarrow> 'f option \<Rightarrow> (exn \<times> 'f option) option"
  read_csv :: "'f \<Rightarrow> exn + 'df"
  read_excel :: "'f \<Rightarrow> exn + (string \<times> 'df) list"
  to_sql :: "string \<Rightarrow> 'df \<Rightarrow> 'f option \<Rightarrow> exn option \<times> 'f option"

record UploadResponse =
  up_session_id :: string
  tables :: "string list"
  message :: "string option"

definition read_saved ::
  "('f \<Rightarrow> exn + 'a) \<Rightarrow> string \<Rightarrow> (string \<rightharpoonup> 'f) \<Rightarrow> exn + 'a" where
  \<comment> \<open>a pandas reader applied to the file at a path\<close>
  "read_saved reader path fs =
     (case fs path of None \<Rightarrow> Inl (OtherException ''FileNotFoundError'') | Some c \<Rightarrow> reader c)"

definition df_to_sql ::
  "('f, 'df) ingest_env \<Rightarrow> string \<Rightarrow> string \<Rightarrow> 'df \<Rightarrow> (string \<rightharpoonup> 'f)
     \<Rightarrow> exn option \<times> (string \<rightharpoonup> 'f)" where
  \<comment> \<open>\<open>df.to_sql(tn, con=engine, index=False, if_exists="replace")\<close> on the engine of
      \<open>db_path\<close>\<close>
  "df_to_sql env db_path tn df fs =
     (case to_sql env tn df (fs db_path) of (err, store) \<Rightarrow> (err, fs(db_path := store)))"

fun write_sheets ::
  "('f, 'df) ingest_env \<Rightarrow> string \<Rightarrow> (string \<times> 'df) list \<Rightarrow> string list
     \<Rightarrow> (string \<rightharpoonup> 'f) \<Rightarrow> (exn + string list) \<times> (string \<rightharpoonup> 'f)" where
  \<comment> \<open>the loop over \<open>xls.items()\<close>\<close>
  "write_sheets env db_path [] tabs fs = (Inr tabs, fs)"
| "write_sheets env db_path ((sheet_name, df) # rest) tabs fs =
     (let tn = safe_table_name sheet_name
      in case df_to_sql env db_path tn df fs of
           (Some e, fs') \<Rightarrow> (Inl e, fs')
         | (None, fs') \<Rightarrow> write_sheets env db_path rest (tabs @ [tn]) fs')"

definition is_csv :: "string \<Rightarrow> bool" where
  \<comment> \<open>\<open>filename.lower().endswith('.csv')\<close>\<close>
  "is_csv filename = py_endswith (py_lower filename) ''.csv''"

definition is_excel :: "string \<Rightarrow> bool" where
  \<comment> \<open>\<open>filename.lower().endswith(('.xls', '.xlsx'))\<close>\<close>
  "is_excel filename =
     (py_endswith (py_lower filename) ''.xls'' \<or> py_endswith (py_lower filename) ''.xlsx'')"

definition ingest ::
  "('f, 'df) ingest_env \<Rightarrow> string \<Rightarrow> string \<Rightarrow> string \<Rightarrow> (string \<rightharpoonup> 'f)
     \<Rightarrow> (exn + string list) \<times> (string \<rightharpoonup> 'f)" where
  \<comment> \<open>the body of the \<open>try\<close> of \<open>upload_file\<close>\<close>
  "ingest env filename saved_path db_path fs =
     (if is_csv filename then
        (case read_saved (read_csv env) saved_path fs of
           Inl e \<Rightarrow> (Inl e, fs)
         | Inr df \<Rightarrow>
             (let table_name = safe_table_name (fst (splitext filename))
              in case df_to_sql env db_path table_name df fs of
                   (Some e, fs') \<Rightarrow> (Inl e, fs')
                 | (None, fs') \<Rightarrow> (Inr [table_name], fs')))
      else if is_excel filename then
        (case read_saved (read_excel env) saved_path fs of
           Inl e \<Rightarrow> (Inl e, fs)
         | Inr xls \<Rightarrow> write_sheets env db_path xls [] fs)
      else (Inl (HTTPException 400 (Lit ''Only CSV and Excel Files are supported'')), fs))"

definition upload_file ::
  "('f, 'df) ingest_env \<Rightarrow> string \<Rightarrow> string \<Rightarrow> string option \<Rightarrow> 'f \<Rightarrow> (string \<rightharpoonup> 'f)
     \<Rightarrow> (exn + UploadResponse) \<times> (string \<rightharpoonup> 'f)" where
  "upload_file env base session_id file_filename contents fs =
     (case file_filename of
        None \<Rightarrow> (Inl (HTTPException 400 (Lit ''Missing Files..'')), fs)
      | Some filename \<Rightarrow>
          if filename = [] then (Inl (HTTPException 400 (Lit ''Missing Files..'')), fs)
          else
            (let saved_path = saved_path_of base session_id filename;
                 db_path = db_path_of base session_id
             in case write_file env saved_path contents (fs saved_path) of
                  Some (e, left) \<Rightarrow> (Inl e, fs(saved_path := left))
                | None \<Rightarrow>
                    (case ingest env filename saved_path db_path (fs(saved_path \<mapsto> contents)) of
                       (Inl e, fs2) \<Rightarrow>
                         (Inl (HTTPException 500 (Fmt ''Error processing file: '' e)),
                          remove_if_exists db_path (remove_if_exists saved_path fs2))
                     | (Inr tabs, fs2) \<Rightarrow>
                         (Inr \<lparr>up_session_id = session_id, tables = tabs,
                               message = Some ''Files processed into SQLite DB.''\<rparr>, fs2))))"

section \<open>The ask endpoint\<close>

text \<open>
  The agent and the parser of literals are collaborators, given as parameters:
  \<open>create_agent\<close> stands for steps 2 and 3 (\<open>SQLDatabase.from_uri\<close> on the connection
  string, the model, the toolkit, \<open>create_sql_agent\<close>), whose exceptions the endpoint does
  not catch; \<open>invoke\<close> is \<open>agent.invoke\<close> on the input dict; \<open>literal_eval\<close> is
  \<open>ast.literal_eval\<close>. A \<open>QueryResponse\<close> has the types its fields declare, and
  building one validates the arguments: a value that has not the declared type raises
  \<open>ValidationError\<close>, which the endpoint does not catch. (The coercions of pydantic, such
  as decoding \<open>bytes\<close> where \<open>str\<close> is declared, are not modelled: such a value is
  rejected.)
\<close>

record 'ag agent_env =
  create_agent :: "string \<Rightarrow> exn + 'ag"
  invoke :: "'ag \<Rightarrow> (string \<times> pyval) list \<Rightarrow> exn + (string \<times> pyval) list"
  literal_eval :: "string \<Rightarrow> exn + pyval"

record QueryRequest =
  session_id :: string
  question :: string
  top_k :: int

record QueryResponse =
  answer :: string
  sql_queries :: "string list"
  rows :: "(string \<times> pyval) list list option"
  raw_agent_output :: "(string \<times> pyval) list"

fun as_str :: "pyval \<Rightarrow> string option" where
  \<comment> \<open>validation against \<open>str\<close>\<close>
  "as_str (PStr s) = Some s"
| "as_str v = None"

definition as_str_item :: "pyval \<times> pyval \<Rightarrow> (string \<times> pyval) option" where
  \<comment> \<open>one item of a \<open>Dict[str, Any]\<close>: the key is a \<open>str\<close>, the value is anything\<close>
  "as_str_item kv = (case as_str (fst kv) of None \<Rightarrow> None | Some k \<Rightarrow> Some (k, snd kv))"

fun as_str_dict :: "pyval \<Rightarrow> (string \<times> pyval) list option" where
  \<comment> \<open>validation against \<open>Dict[str, Any]\<close>\<close>
  "as_str_dict (PDict kvs) = those (map as_str_item kvs)"
| "as_str_dict v = None"

fun as_rows :: "pyval \<Rightarrow> (string \<times> pyval) list list option option" where
  \<comment> \<open>validation against \<open>Optional[List[Dict[str, Any]]]\<close>; the outer \<open>None\<close> is the
      failure\<close>
  "as_rows PNone = Some None"
| "as_rows (PList xs) = (case those (map as_str_dict xs) of None \<Rightarrow> None | Some ds \<Rightarrow> Some (Some ds))"
| "as_rows v = None"

definition new_QueryResponse ::
  "pyval \<Rightarrow> pyval list \<Rightarrow> pyval \<Rightarrow> (string \<times> pyval) list \<Rightarrow> exn + QueryResponse" where
  \<comment> \<open>\<open>QueryResponse(answer=..., sql_queries=..., rows=..., raw_agent_output=...)\<close>\<close>
  "new_QueryResponse answer0 sql_queries0 rows0 raw =
     (case (as_str answer0, those (map as_str sql_queries0), as_rows rows0) of
        (Some a, Some qs, Some r) \<Rightarrow>
          Inr \<lparr>answer = a, sql_queries = qs, rows = r, raw_agent_output = raw\<rparr>
      | _ \<Rightarrow> Inl ValidationError)"

definition db_uri_ro :: "string \<Rightarrow> string" where
  \<comment> \<open>\<open>f"sqlite:///file:{db_path}?mode=ro&uri=true"\<close>\<close>
  "db_uri_ro db_path = ''sqlite:///file:'' @ db_path @ ''?mode=ro&uri=true''"

definition agent_input :: "QueryRequest \<Rightarrow> (string \<times> pyval) list" where
  \<comment> \<open>\<open>{"input": query.question}\<close>\<close>
  "agent_input query = [(''input'', PStr (question query))]"

definition is_step :: "pyval \<Rightarrow> bool" where
  \<comment> \<open>\<open>isinstance(step, (list, tuple)) and len(step) >= 2\<close>\<close>
  "is_step step = (is_list_or_tuple step \<and> length (seq_items step) \<ge> 2)"

definition step_tool_info :: "pyval \<Rightarrow> pyval" where
  \<comment> \<open>\<open>step[0]\<close>, for a step that passed \<open>is_step\<close>\<close>
  "step_tool_info step = (case seq_items step of a # _ \<Rightarrow> a | [] \<Rightarrow> PNone)"

definition step_output :: "pyval \<Rightarrow> pyval" where
  \<comment> \<open>\<open>step[1]\<close>, for a step that passed \<open>is_step\<close>\<close>
  "step_output step = (case seq_items step of _ # b # _ \<Rightarrow> b | _ \<Rightarrow> PNone)"

definition tool_is_query :: "pyval \<Rightarrow> bool" where
  \<comment> \<open>\<open>hasattr(tool_info, "tool") and tool_info.tool == "sql_db_query"\<close>\<close>
  "tool_is_query tool_info =
     (hasattr tool_info ''tool'' \<and> getattr tool_info ''tool'' = Some (PStr ''sql_db_query''))"

fun collect_sql :: "pyval list \<Rightarrow> pyval list" where
  \<comment> \<open>step 5: the loop that fills \<open>sql_queries\<close>\<close>
  "collect_sql [] = []"
| "collect_sql (step # rest) =
     (if is_step step \<and> hasattr (step_tool_info step) ''tool''
          \<and> hasattr (step_tool_info step) ''tool_input'' \<and> tool_is_query (step_tool_info step)
      then (case getattr (step_tool_info step) ''tool_input'' of
              Some q \<Rightarrow> q # collect_sql rest | None \<Rightarrow> collect_sql rest)
      else collect_sql rest)"

definition looks_like_list :: "pyval \<Rightarrow> bool" where
  \<comment> \<open>\<open>isinstance(output, str) and output.strip().startswith("[")\<close>\<close>
  "looks_like_list output =
     (case output of PStr s \<Rightarrow> py_startswith (py_strip s) ''['' | _ \<Rightarrow> False)"

definition parse_output :: "(string \<Rightarrow> exn + pyval) \<Rightarrow> pyval \<Rightarrow> pyval \<Rightarrow> exn + pyval" where
  \<comment> \<open>lines 234 to 240: the new value of \<open>rows\<close>, or the exception that leaves the inner
      \<open>try\<close>\<close>
  "parse_output lit_eval output rows0 =
     (case output of
        PStr s \<Rightarrow>
          if py_startswith (py_strip s) ''[''
          then (case lit_eval s of
                  Inr v \<Rightarrow> Inr v
                | Inl e \<Rightarrow> if e = ValueError \<or> e = SyntaxError then Inr PNone else Inl e)
          else Inr rows0
      | _ \<Rightarrow> Inr rows0)"

definition column_names :: "nat \<Rightarrow> string list" where
  \<comment> \<open>\<open>[f"col_{i+1}" for i in range(n)]\<close>\<close>
  "column_names n = map (\<lambda>i. ''col_'' @ str_nat (i + 1)) [0..<n]"

definition row_to_dict :: "string list \<Rightarrow> pyval \<Rightarrow> exn + pyval" where
  \<comment> \<open>\<open>dict(zip(column_names, r))\<close>; \<open>zip\<close> raises \<open>TypeError\<close> on a row that is not iterable\<close>
  "row_to_dict cols r =
     (case py_iter r of
        None \<Rightarrow> Inl TypeError
      | Some vs \<Rightarrow> Inr (PDict (py_dict (zip (map PStr cols) vs))))"

fun rows_to_dicts :: "string list \<Rightarrow> pyval list \<Rightarrow> exn + pyval list" where
  \<comment> \<open>the list comprehension over the rows\<close>
  "rows_to_dicts cols [] = Inr []"
| "rows_to_dicts cols (r # rs) =
     (case row_to_dict cols r of
        Inl e \<Rightarrow> Inl e
      | Inr d \<Rightarrow> (case rows_to_dicts cols rs of Inl e \<Rightarrow> Inl e | Inr ds \<Rightarrow> Inr (d # ds)))"

definition convert_rows :: "pyval \<Rightarrow> exn + pyval" where
  \<comment> \<open>lines 243 to 246\<close>
  "convert_rows rows0 =
     (if py_bool rows0 \<and> is_list rows0 \<and> length (seq_items rows0) > 0 then
        (case seq_items rows0 of
           [] \<Rightarrow> Inr rows0
         | r0 # _ \<Rightarrow>
             if is_list_or_tuple r0 then
               (case rows_to_dicts (column_names (length (seq_items r0))) (seq_items rows0) of
                  Inl e \<Rightarrow> Inl e
                | Inr ds \<Rightarrow> Inr (PList ds))
             else Inr rows0)
      else Inr rows0)"

fun scan_steps :: "(string \<Rightarrow> exn + pyval) \<Rightarrow> pyval \<Rightarrow> pyval list \<Rightarrow> exn + pyval" where
  \<comment> \<open>the loop of step 6 with its \<open>break\<close>: the value of \<open>rows\<close> when the loop ends, or
      the exception that leaves it\<close>
  "scan_steps lit_eval rows0 [] = Inr rows0"
| "scan_steps lit_eval rows0 (step # rest) =
     (if is_step step then
        (if tool_is_query (step_tool_info step) then
           (case parse_output lit_eval (step_output step) rows0 of
              Inl e \<Rightarrow> Inl e
            | Inr rows1 \<Rightarrow> convert_rows rows1)
         else scan_steps lit_eval rows0 rest)
      else scan_steps lit_eval rows0 rest)"

definition extract_rows :: "(string \<Rightarrow> exn + pyval) \<Rightarrow> pyval list \<Rightarrow> pyval" where
  \<comment> \<open>step 6: \<open>rows = None\<close>, the loop, and \<open>except Exception: rows = None\<close>\<close>
  "extract_rows lit_eval steps =
     (case scan_steps lit_eval PNone steps of Inl e \<Rightarrow> PNone | Inr rows1 \<Rightarrow> rows1)"

definition ask_question ::
  "'ag agent_env \<Rightarrow> string \<Rightarrow> QueryRequest \<Rightarrow> (string \<rightharpoonup> 'f) \<Rightarrow> exn + QueryResponse" where
  "ask_question env base query fs =
     (let db_path = db_path_of base (session_id query)
      in if fs db_path = None then Inl (HTTPException 404 (Lit ''Session not found''))
         else
           (case create_agent env (db_uri_ro db_path) of
              Inl e \<Rightarrow> Inl e
            | Inr agent \<Rightarrow>
                (case invoke env agent (agent_input query) of
                   Inl e \<Rightarrow> Inl (HTTPException 500 (Fmt ''Agent execution failed: '' e))
                 | Inr result \<Rightarrow>
                     (case py_iter (dict_get result ''intermediate_steps'' (PList [])) of
                        None \<Rightarrow> Inl TypeError
                      | Some steps \<Rightarrow>
                          new_QueryResponse (dict_get result ''output'' (PStr []))
                            (collect_sql steps) (extract_rows (literal_eval env) steps) result))))"

subsection \<open>Notions for stating what step 6 computes\<close>

definition is_query_step :: "pyval \<Rightarrow> bool" where
  \<comment> \<open>the two tests of lines 229 and 233: a trace entry whose tool is the query tool\<close>
  "is_query_step step = (is_step step \<and> tool_is_query (step_tool_info step))"

definition rows_of_output :: "(string \<Rightarrow> exn + pyval) \<Rightarrow> pyval \<Rightarrow> pyval" where
  \<comment> \<open>\<open>rows\<close> for an output that is parsed: \<open>literal_eval\<close>, then lines 243 to 246;
      \<open>None\<close> when either raises\<close>
  "rows_of_output lit_eval output =
     (case output of
        PStr s \<Rightarrow>
          (case lit_eval s of
             Inl e \<Rightarrow> PNone
           | Inr v \<Rightarrow> (case convert_rows v of Inl e \<Rightarrow> PNone | Inr rows1 \<Rightarrow> rows1))
      | _ \<Rightarrow> PNone)"

subsection \<open>The row extraction as the specification words it\<close>

definition spec_extract_rows :: "(string \<Rightarrow> exn + pyval) \<Rightarrow> pyval list \<Rightarrow> pyval" where
  \<comment> \<open>the first query entry, anywhere in the trace, whose output looks like a list\<close>
  "spec_extract_rows lit_eval steps =
     (case find (\<lambda>step. is_query_step step \<and> looks_like_list (step_output step)) steps of
        None \<Rightarrow> PNone
      | Some step \<Rightarrow> rows_of_output lit_eval (step_output step))"

section \<open>Example inputs\<close>

definition query_action :: "string \<Rightarrow> pyval" where
  \<comment> \<open>the \<open>AgentAction\<close> of a call of the query tool with the given SQL text\<close>
  "query_action sql =
     PObj [(''tool'', PStr ''sql_db_query''), (''tool_input'', PStr sql), (''log'', PStr [])]"

definition example_literal_eval :: "string \<Rightarrow> exn + pyval" where
  \<comment> \<open>\<open>ast.literal_eval\<close> on the five strings that the examples parse\<close>
  "example_literal_eval s =
     (if s = ''[(1, \"a\"), (2, \"b\")]''
        then Inr (PList [PTuple [PInt 1, PStr ''a''], PTuple [PInt 2, PStr ''b'']])
      else if s = ''[(1, 2), 3]'' then Inr (PList [PTuple [PInt 1, PInt 2], PInt 3])
      else if s = ''[(7,)]'' then Inr (PList [PTuple [PInt 7]])
      else if s = ''[{\"id\": 1}, {\"id\": 2}]''
        then Inr (PList [PDict [(PStr ''id'', PInt 1)], PDict [(PStr ''id'', PInt 2)]])
      else if s = ''[]'' then Inr (PList [])
      else Inl ValueError)"

definition example_agent_env :: "(string \<times> pyval) list \<Rightarrow> unit agent_env" where
  \<comment> \<open>an agent that answers every question with the given result\<close>
  "example_agent_env result =
     \<lparr>create_agent = (\<lambda>uri. Inr ()),
      invoke = (\<lambda>agent inp. Inr result),
      literal_eval = example_literal_eval\<rparr>"

definition example_empty_result :: "(string \<times> pyval) list" where
  \<comment> \<open>what the agent returns after one query whose output is the empty list\<close>
  "example_empty_result =
     [(''input'', PStr ''Which orders are late?''),
      (''output'', PStr ''No orders are late.''),
      (''intermediate_steps'',
         PList [PTuple [query_action ''SELECT * FROM orders WHERE late = 1'', PStr ''[]'']])]"

definition example_request :: QueryRequest where
  "example_request = \<lparr>session_id = ''5f2c'', question = ''Which orders are late?'', top_k = 5\<rparr>"

definition example_fs :: "string \<rightharpoonup> string" where
  \<comment> \<open>a file system that holds the store of session \<open>5f2c\<close>\<close>
  "example_fs = [db_path_of ''/srv/app'' ''5f2c'' \<mapsto> ''orders;'']"

definition example_ingest_env :: "(string, string list) ingest_env" where
  \<comment> \<open>a disk that takes every file; a CSV reader that rejects one malformed file (an
      unclosed quote); a workbook reader that finds the sheets \<open>Good\<close> and \<open>Bad\<close>; a
      store file that holds the names of the tables written to it, and an engine that
      fails on the table \<open>bad\<close>, leaving what it had written before\<close>
  "example_ingest_env =
     \<lparr>write_file = (\<lambda>path c before. None),
      read_csv = (\<lambda>c. if c = ''\"a,b'' then Inl (OtherException ''ParserError'') else Inr [c]),
      read_excel = (\<lambda>c. Inr [(''Good'', [c]), (''Bad'', [c])]),
      to_sql = (\<lambda>tn df store.
                  if tn = ''bad'' then (Some (OtherException ''OperationalError''), store)
                  else (None, Some (tn @ '';'' @ (case store of None \<Rightarrow> [] | Some x \<Rightarrow> x))))\<rparr>"

section \<open>Properties of the sanitizer\<close>

lemma in_class_underscore: "in_class CHR ''_''"
  by (simp add: in_class_def)

lemma in_class_not_space: "in_class c \<Longrightarrow> \<not> py_isspace c"
  by (auto simp: in_class_def py_isspace_def Let_def)

lemma in_class_lower: "in_class c \<Longrightarrow> py_lower_char c = c"
  by (auto simp: in_class_def py_lower_char_def Let_def)

lemma re_sub_class_all: "list_all in_class (re_sub_class s)"
  by (induction s rule: re_sub_class.induct) (auto simp: in_class_underscore)

lemma re_sub_class_id: "list_all in_class s \<Longrightarrow> re_sub_class s = s"
  by (induction s) auto

lemma py_lower_id: "list_all in_class s \<Longrightarrow> py_lower s = s"
  by (induction s) (auto simp: py_lower_def in_class_lower)

lemma dropWhile_space_id: "list_all in_class s \<Longrightarrow> dropWhile py_isspace s = s"
  by (cases s) (auto simp: in_class_not_space)

lemma py_strip_id: "list_all in_class s \<Longrightarrow> py_strip s = s"
proof -
  assume a: "list_all in_class s"
  then have "list_all in_class (rev s)" by (simp add: list_all_iff)
  then have "dropWhile py_isspace (rev s) = rev s" by (rule dropWhile_space_id)
  with a show ?thesis by (simp add: py_strip_def dropWhile_space_id)
qed

lemma safe_table_name_all: "list_all in_class (safe_table_name s)"
  by (simp add: safe_table_name_def Let_def re_sub_class_all in_class_def)

lemma safe_table_name_nonempty: "safe_table_name s \<noteq> []"
  by (simp add: safe_table_name_def Let_def)

lemma digit_or_start: "in_class c \<Longrightarrow> \<not> is_digit c \<Longrightarrow> is_ident_start c"
  by (auto simp: in_class_def is_digit_def is_ident_start_def Let_def)

lemma safe_table_name_no_digit: "\<not> re_match_digit (safe_table_name s)"
  by (simp add: safe_table_name_def Let_def re_match_digit_def is_digit_def split: list.splits)

lemma safe_table_name_fixpoint:
  assumes "list_all in_class r" and "r \<noteq> []" and "\<not> re_match_digit r"
  shows "safe_table_name r = r"
  using assms by (simp add: safe_table_name_def Let_def py_strip_id py_lower_id re_sub_class_id)

text \<open>
  Claim C7. For every string \<open>s\<close>, the sanitized name is non-empty, matches
  \<open>^[a-z_][a-z0-9_]*$\<close>, and sanitizing it again changes nothing.
\<close>

theorem safe_table_name_identifier_idempotent:
  "safe_table_name s \<noteq> [] \<and> matches_ident (safe_table_name s)
   \<and> safe_table_name (safe_table_name s) = safe_table_name s"
proof -
  let ?r = "safe_table_name s"
  have ne: "?r \<noteq> []" by (rule safe_table_name_nonempty)
  have al: "list_all in_class ?r" by (rule safe_table_name_all)
  have nd: "\<not> re_match_digit ?r" by (rule safe_table_name_no_digit)
  obtain c cs where r: "?r = c # cs" using ne by (cases ?r) auto
  from al nd r have "is_ident_start c" and "list_all in_class cs"
    by (auto simp: re_match_digit_def digit_or_start)
  then have "matches_ident ?r" by (simp add: matches_ident_def r)
  moreover have "safe_table_name ?r = ?r" using al ne nd by (rule safe_table_name_fixpoint)
  ultimately show ?thesis using ne by simp
qed

lemma spec_replace_runs_re_sub:
  "spec_replace_runs False s = re_sub_class s \<and>
   spec_replace_runs True s = re_sub_class (dropWhile (\<lambda>d. \<not> in_class d) s)"
  by (induction s) auto

lemma prefix_case_re_match:
  "(case s of [] \<Rightarrow> s | c # x \<Rightarrow> if is_digit c then ''t_'' @ s else s)
     = (if re_match_digit s then ''t_'' @ s else s)"
  by (simp add: re_match_digit_def split: list.splits)

text \<open>
  Claim C4, as stated: the sanitizer is the four steps of the specification (lowercase,
  replace the runs, prefix, fallback) applied to the input itself, so that whitespace
  around a name gives underscores around the result. The source strips the input first:
  on \<open>" a "\<close> it returns \<open>"a"\<close>, where the four steps give \<open>"_a_"\<close>.
\<close>

theorem safe_table_name_whitespace_counterexample:
  "safe_table_name '' a '' = ''a'' \<and> spec_sanitize '' a '' = ''_a_''
   \<and> safe_table_name '' a '' \<noteq> spec_sanitize '' a ''"
  by code_simp

text \<open>
  Claim C4, amended: for every input string \<open>s\<close>, the sanitizer is the four steps of the
  specification applied to \<open>s\<close> with the whitespace at its two ends removed.
\<close>

theorem safe_table_name_strips_then_sanitizes:
  "safe_table_name s = spec_sanitize (py_strip s)"
  by (simp add: safe_table_name_def spec_sanitize_def Let_def spec_replace_runs_re_sub
        prefix_case_re_match)

section \<open>Properties of the upload endpoint\<close>

lemma upload_file_ingest_failure:
  assumes "filename \<noteq> []"
      and "write_file env (saved_path_of base sid filename) contents
             (fs (saved_path_of base sid filename)) = None"
      and "ingest env filename (saved_path_of base sid filename) (db_path_of base sid)
             (fs(saved_path_of base sid filename \<mapsto> contents)) = (Inl e, fs2)"
  shows "upload_file env base sid (Some filename) contents fs =
           (Inl (HTTPException 500 (Fmt ''Error processing file: '' e)),
            remove_if_exists (db_path_of base sid)
              (remove_if_exists (saved_path_of base sid filename) fs2))"
  using assms by (simp add: upload_file_def Let_def)

lemma ingest_unsupported:
  assumes "\<not> is_csv filename" and "\<not> is_excel filename"
  shows "ingest env filename saved_path db_path fs =
           (Inl (HTTPException 400 (Lit ''Only CSV and Excel Files are supported'')), fs)"
  using assms by (simp add: ingest_def)

lemma notes_txt_unsupported: "\<not> is_csv ''notes.txt''" "\<not> is_excel ''notes.txt''"
  by code_simp+

text \<open>
  Claim C2 says that an upload whose extension is none of \<open>.csv\<close>, \<open>.xls\<close>, \<open>.xlsx\<close>
  fails with HTTP 400. The source raises that 400 inside its \<open>try\<close>, where
  \<open>except Exception\<close> catches it: for the file name \<open>notes.txt\<close>, with any contents
  and any collaborators, the response is the exception of the operating system when
  the raw file cannot be written, and otherwise the HTTP 500 of a processing failure,
  which wraps the 400.
\<close>

theorem unsupported_extension_reported_as_500:
  "fst (upload_file env base sid (Some ''notes.txt'') contents fs) =
     (case write_file env (saved_path_of base sid ''notes.txt'') contents
             (fs (saved_path_of base sid ''notes.txt'')) of
        Some (e, left) \<Rightarrow> Inl e
      | None \<Rightarrow>
          Inl (HTTPException 500 (Fmt ''Error processing file: ''
                 (HTTPException 400 (Lit ''Only CSV and Excel Files are supported'')))))"
proof (cases "write_file env (saved_path_of base sid ''notes.txt'') contents
                (fs (saved_path_of base sid ''notes.txt''))")
  case None
  have "''notes.txt'' \<noteq> []" by simp
  from upload_file_ingest_failure
         [where fs = fs and env = env, OF this None
            ingest_unsupported [where fs = "fs(saved_path_of base sid ''notes.txt'' \<mapsto> contents)",
              OF notes_txt_unsupported]]
  show ?thesis by (simp add: None)
next
  case (Some failure)
  then show ?thesis by (cases failure) (simp add: upload_file_def Let_def)
qed

lemma remove_both:
  "remove_if_exists q (remove_if_exists p fs) p = None \<and>
   remove_if_exists q (remove_if_exists p fs) q = None"
  by (auto simp: remove_if_exists_def)

lemma write_sheets_append:
  "write_sheets env db_path (pre @ rest) tabs fs =
     (case write_sheets env db_path pre tabs fs of
        (Inl e, fs') \<Rightarrow> (Inl e, fs')
      | (Inr tabs', fs') \<Rightarrow> write_sheets env db_path rest tabs' fs')"
proof (induction pre arbitrary: tabs fs)
  case Nil
  show ?case by simp
next
  case (Cons sheet pre)
  obtain name df where sheet: "sheet = (name, df)" by (cases sheet)
  obtain err fs1 where w: "df_to_sql env db_path (safe_table_name name) df fs = (err, fs1)"
    by (cases "df_to_sql env db_path (safe_table_name name) df fs")
  show ?case
  proof (cases err)
    case None
    with sheet w Cons.IH show ?thesis by simp
  next
    case (Some e)
    with sheet w show ?thesis by simp
  qed
qed

lemma df_to_sql_failure:
  "fst (to_sql env tn df (fs db_path)) = Some e \<Longrightarrow> fst (df_to_sql env db_path tn df fs) = Some e"
  by (cases "to_sql env tn df (fs db_path)") (simp add: df_to_sql_def)

lemma ingest_csv_parse_failure:
  assumes "is_csv filename" and "fs saved_path = Some contents"
      and "read_csv env contents = Inl e"
  shows "fst (ingest env filename saved_path db_path fs) = Inl e"
  using assms by (simp add: ingest_def read_saved_def)

lemma ingest_csv_store_failure:
  assumes "is_csv filename" and "fs saved_path = Some contents"
      and "read_csv env contents = Inr df"
      and "fst (to_sql env (safe_table_name (fst (splitext filename))) df (fs db_path)) = Some e"
  shows "fst (ingest env filename saved_path db_path fs) = Inl e"
proof -
  obtain err fs' where
    w: "df_to_sql env db_path (safe_table_name (fst (splitext filename))) df fs = (err, fs')"
    by (cases "df_to_sql env db_path (safe_table_name (fst (splitext filename))) df fs")
  from df_to_sql_failure [of env _ df fs db_path e, OF assms(4)] w have "err = Some e" by simp
  with assms(1-3) w show ?thesis
    by (simp add: ingest_def read_saved_def Let_def)
qed

lemma ingest_excel_parse_failure:
  assumes "\<not> is_csv filename" and "is_excel filename" and "fs saved_path = Some contents"
      and "read_excel env contents = Inl e"
  shows "fst (ingest env filename saved_path db_path fs) = Inl e"
  using assms by (simp add: ingest_def read_saved_def)

lemma ingest_excel_store_failure:
  assumes "\<not> is_csv filename" and "is_excel filename" and "fs saved_path = Some contents"
      and "read_excel env contents = Inr (pre @ (sheet_name, df) # post)"
      and "write_sheets env db_path pre [] fs = (Inr tabs, fs1)"
      and "fst (to_sql env (safe_table_name sheet_name) df (fs1 db_path)) = Some e"
  shows "fst (ingest env filename saved_path db_path fs) = Inl e"
proof -
  obtain err fs' where
    w: "df_to_sql env db_path (safe_table_name sheet_name) df fs1 = (err, fs')"
    by (cases "df_to_sql env db_path (safe_table_name sheet_name) df fs1")
  from df_to_sql_failure [of env _ df fs1 db_path e, OF assms(6)] w have "err = Some e" by simp
  with w have "fst (write_sheets env db_path ((sheet_name, df) # post) tabs fs1) = Inl e"
    by simp
  with assms(5)
  have "fst (write_sheets env db_path (pre @ (sheet_name, df) # post) [] fs) = Inl e"
    by (simp add: write_sheets_append)
  with assms(1-4) show ?thesis by (simp add: ingest_def read_saved_def)
qed

text \<open>
  Claim C5. Let the raw file of an upload have been saved. If then the CSV reader raises,
  or \<open>to_sql\<close> raises on the table of the CSV file, or the workbook reader raises, or
  \<open>to_sql\<close> raises on some sheet of the workbook after the sheets before it were
  written, the endpoint reports an HTTP 500 that carries the exception raised, and in
  the file system it leaves neither the raw file nor the store file of the session
  exists.
\<close>

theorem failed_ingestion_reported_and_cleaned:
  fixes env :: "('f, 'df) ingest_env"
  assumes "filename \<noteq> []"
      and "write_file env (saved_path_of base sid filename) contents
             (fs (saved_path_of base sid filename)) = None"
      and "(is_csv filename \<and> read_csv env contents = Inl e)
         \<or> (is_csv filename \<and> read_csv env contents = Inr df
              \<and> fst (to_sql env (safe_table_name (fst (splitext filename))) df
                       ((fs(saved_path_of base sid filename \<mapsto> contents)) (db_path_of base sid)))
                  = Some e)
         \<or> (\<not> is_csv filename \<and> is_excel filename \<and> read_excel env contents = Inl e)
         \<or> (\<not> is_csv filename \<and> is_excel filename
              \<and> read_excel env contents = Inr (pre @ (sheet_name, df) # post)
              \<and> write_sheets env (db_path_of base sid) pre []
                   (fs(saved_path_of base sid filename \<mapsto> contents)) = (Inr tabs, fs1)
              \<and> fst (to_sql env (safe_table_name sheet_name) df (fs1 (db_path_of base sid)))
                  = Some e)"
  shows "fst (upload_file env base sid (Some filename) contents fs)
           = Inl (HTTPException 500 (Fmt ''Error processing file: '' e))
       \<and> snd (upload_file env base sid (Some filename) contents fs)
           (saved_path_of base sid filename) = None
       \<and> snd (upload_file env base sid (Some filename) contents fs)
           (db_path_of base sid) = None"
proof -
  let ?saved = "saved_path_of base sid filename"
  let ?db = "db_path_of base sid"
  let ?fs0 = "fs(?saved \<mapsto> contents)"
  have saved: "?fs0 ?saved = Some contents" by simp
  from assms(3) have "fst (ingest env filename ?saved ?db ?fs0) = Inl e"
  proof (elim disjE conjE)
    assume a: "is_csv filename" "read_csv env contents = Inl e"
    show ?thesis
      by (rule ingest_csv_parse_failure [where fs = ?fs0 and contents = contents])
         (use a saved in simp_all)
  next
    assume a: "is_csv filename" "read_csv env contents = Inr df"
      "fst (to_sql env (safe_table_name (fst (splitext filename))) df (?fs0 ?db)) = Some e"
    show ?thesis
      by (rule ingest_csv_store_failure [where fs = ?fs0 and contents = contents and df = df])
         (use a saved in simp_all)
  next
    assume a: "\<not> is_csv filename" "is_excel filename" "read_excel env contents = Inl e"
    show ?thesis
      by (rule ingest_excel_parse_failure [where fs = ?fs0 and contents = contents])
         (use a saved in simp_all)
  next
    assume a: "\<not> is_csv filename" "is_excel filename"
      "read_excel env contents = Inr (pre @ (sheet_name, df) # post)"
      "write_sheets env ?db pre [] ?fs0 = (Inr tabs, fs1)"
      "fst (to_sql env (safe_table_name sheet_name) df (fs1 ?db)) = Some e"
    show ?thesis
      by (rule ingest_excel_store_failure
            [where fs = ?fs0 and contents = contents and df = df and pre = pre
               and sheet_name = sheet_name and post = post and tabs = tabs and ?fs1.0 = fs1])
         (use a saved in simp_all)
  qed
  then obtain fs2 where "ingest env filename ?saved ?db ?fs0 = (Inl e, fs2)"
    by (cases "ingest env filename ?saved ?db ?fs0") simp
  from upload_file_ingest_failure [where fs = fs, OF assms(1,2) this] show ?thesis
    by (simp add: remove_both)
qed

text \<open>
  A witness for C5, in two uploads into an empty file system: a CSV file that the reader
  rejects, and a workbook whose first sheet is written to the store and whose second
  sheet the engine refuses, so that a store file exists when the failure is caught.
\<close>

theorem failed_ingestion_reported_and_cleaned_witness:
  "''bad.csv'' \<noteq> []
   \<and> write_file example_ingest_env (saved_path_of ''/srv/app'' ''5f2c'' ''bad.csv'') ''\"a,b''
        ((Map.empty :: string \<rightharpoonup> string) (saved_path_of ''/srv/app'' ''5f2c'' ''bad.csv'')) = None
   \<and> is_csv ''bad.csv''
   \<and> read_csv example_ingest_env ''\"a,b'' = Inl (OtherException ''ParserError'')
   \<and> fst (upload_file example_ingest_env ''/srv/app'' ''5f2c'' (Some ''bad.csv'') ''\"a,b'' Map.empty)
        = Inl (HTTPException 500 (Fmt ''Error processing file: '' (OtherException ''ParserError'')))
   \<and> snd (upload_file example_ingest_env ''/srv/app'' ''5f2c'' (Some ''bad.csv'') ''\"a,b'' Map.empty)
        (saved_path_of ''/srv/app'' ''5f2c'' ''bad.csv'') = None
   \<and> snd (upload_file example_ingest_env ''/srv/app'' ''5f2c'' (Some ''bad.csv'') ''\"a,b'' Map.empty)
        (db_path_of ''/srv/app'' ''5f2c'') = None
   \<and> ''book.xlsx'' \<noteq> []
   \<and> write_file example_ingest_env (saved_path_of ''/srv/app'' ''77aa'' ''book.xlsx'') ''wb''
        ((Map.empty :: string \<rightharpoonup> string) (saved_path_of ''/srv/app'' ''77aa'' ''book.xlsx'')) = None
   \<and> \<not> is_csv ''book.xlsx''
   \<and> is_excel ''book.xlsx''
   \<and> read_excel example_ingest_env ''wb'' = Inr ([(''Good'', [''wb''])] @ (''Bad'', [''wb'']) # [])
   \<and> write_sheets example_ingest_env (db_path_of ''/srv/app'' ''77aa'') [(''Good'', [''wb''])] []
        [saved_path_of ''/srv/app'' ''77aa'' ''book.xlsx'' \<mapsto> ''wb'']
        = (Inr [''good''],
           [saved_path_of ''/srv/app'' ''77aa'' ''book.xlsx'' \<mapsto> ''wb'',
            db_path_of ''/srv/app'' ''77aa'' \<mapsto> ''good;''])
   \<and> fst (to_sql example_ingest_env (safe_table_name ''Bad'') [''wb'']
             ([saved_path_of ''/srv/app'' ''77aa'' ''book.xlsx'' \<mapsto> ''wb'',
               db_path_of ''/srv/app'' ''77aa'' \<mapsto> ''good;''] (db_path_of ''/srv/app'' ''77aa'')))
        = Some (OtherException ''OperationalError'')
   \<and> fst (upload_file example_ingest_env ''/srv/app'' ''77aa'' (Some ''book.xlsx'') ''wb'' Map.empty)
        = Inl (HTTPException 500 (Fmt ''Error processing file: '' (OtherException ''OperationalError'')))
   \<and> snd (upload_file example_ingest_env ''/srv/app'' ''77aa'' (Some ''book.xlsx'') ''wb'' Map.empty)
        (saved_path_of ''/srv/app'' ''77aa'' ''book.xlsx'') = None
   \<and> snd (upload_file example_ingest_env ''/srv/app'' ''77aa'' (Some ''book.xlsx'') ''wb'' Map.empty)
        (db_path_of ''/srv/app'' ''77aa'') = None"
proof -
  let ?env = "example_ingest_env"
  let ?fs = "Map.empty :: string \<rightharpoonup> string"
  \<comment> \<open>the CSV file that the reader rejects\<close>
  let ?csv = "saved_path_of ''/srv/app'' ''5f2c'' ''bad.csv''"
  have c1: "''bad.csv'' \<noteq> []" by simp
  have c2: "write_file ?env ?csv ''\"a,b'' (?fs ?csv) = None"
    by (simp add: example_ingest_env_def)
  have c3: "is_csv ''bad.csv''" by code_simp
  have c4: "read_csv ?env ''\"a,b'' = Inl (OtherException ''ParserError'')"
    by (simp add: example_ingest_env_def)
  from c3 c4
  have cf: "(is_csv ''bad.csv'' \<and> read_csv ?env ''\"a,b'' = Inl (OtherException ''ParserError''))
    \<or> (is_csv ''bad.csv'' \<and> read_csv ?env ''\"a,b'' = Inr df
         \<and> fst (to_sql ?env (safe_table_name (fst (splitext ''bad.csv''))) df
                  ((?fs(?csv \<mapsto> ''\"a,b'')) (db_path_of ''/srv/app'' ''5f2c'')))
             = Some (OtherException ''ParserError''))
    \<or> (\<not> is_csv ''bad.csv'' \<and> is_excel ''bad.csv''
         \<and> read_excel ?env ''\"a,b'' = Inl (OtherException ''ParserError''))
    \<or> (\<not> is_csv ''bad.csv'' \<and> is_excel ''bad.csv''
         \<and> read_excel ?env ''\"a,b'' = Inr (pre @ (sheet_name, df) # post)
         \<and> write_sheets ?env (db_path_of ''/srv/app'' ''5f2c'') pre [] (?fs(?csv \<mapsto> ''\"a,b''))
              = (Inr tabs, fs1)
         \<and> fst (to_sql ?env (safe_table_name sheet_name) df (fs1 (db_path_of ''/srv/app'' ''5f2c'')))
             = Some (OtherException ''ParserError''))"
    for df pre sheet_name post tabs fs1
    by simp
  note c = failed_ingestion_reported_and_cleaned [where fs = ?fs, OF c1 c2 cf]
  \<comment> \<open>the workbook whose second sheet the engine refuses\<close>
  let ?saved = "saved_path_of ''/srv/app'' ''77aa'' ''book.xlsx''"
  let ?db = "db_path_of ''/srv/app'' ''77aa''"
  have ne: "?saved \<noteq> ?db" by code_simp
  have w1: "''book.xlsx'' \<noteq> []" by simp
  have w2: "write_file ?env ?saved ''wb'' (?fs ?saved) = None"
    by (simp add: example_ingest_env_def)
  have w3: "\<not> is_csv ''book.xlsx''" by code_simp
  have w4: "is_excel ''book.xlsx''" by code_simp
  have w5: "read_excel ?env ''wb'' = Inr ([(''Good'', [''wb''])] @ (''Bad'', [''wb'']) # [])"
    by (simp add: example_ingest_env_def)
  have good: "safe_table_name ''Good'' = ''good''" by code_simp
  have bad: "safe_table_name ''Bad'' = ''bad''" by code_simp
  have w6: "write_sheets ?env ?db [(''Good'', [''wb''])] [] [?saved \<mapsto> ''wb'']
              = (Inr [''good''], [?saved \<mapsto> ''wb'', ?db \<mapsto> ''good;''])"
    using ne by (simp add: good df_to_sql_def example_ingest_env_def)
  have w7: "fst (to_sql ?env (safe_table_name ''Bad'') [''wb'']
                  ([?saved \<mapsto> ''wb'', ?db \<mapsto> ''good;''] ?db))
              = Some (OtherException ''OperationalError'')"
    by (simp add: bad example_ingest_env_def)
  from w3 w4 w5 w6 w7
  have wf: "(is_csv ''book.xlsx'' \<and> read_csv ?env ''wb'' = Inl (OtherException ''OperationalError''))
    \<or> (is_csv ''book.xlsx'' \<and> read_csv ?env ''wb'' = Inr [''wb'']
         \<and> fst (to_sql ?env (safe_table_name (fst (splitext ''book.xlsx''))) [''wb'']
                  ((?fs(?saved \<mapsto> ''wb'')) ?db))
             = Some (OtherException ''OperationalError''))
    \<or> (\<not> is_csv ''book.xlsx'' \<and> is_excel ''book.xlsx''
         \<and> read_excel ?env ''wb'' = Inl (OtherException ''OperationalError''))
    \<or> (\<not> is_csv ''book.xlsx'' \<and> is_excel ''book.xlsx''
         \<and> read_excel ?env ''wb'' = Inr ([(''Good'', [''wb''])] @ (''Bad'', [''wb'']) # [])
         \<and> write_sheets ?env ?db [(''Good'', [''wb''])] [] (?fs(?saved \<mapsto> ''wb''))
              = (Inr [''good''], [?saved \<mapsto> ''wb'', ?db \<mapsto> ''good;''])
         \<and> fst (to_sql ?env (safe_table_name ''Bad'') [''wb'']
                  ([?saved \<mapsto> ''wb'', ?db \<mapsto> ''good;''] ?db))
             = Some (OtherException ''OperationalError''))"
    by blast
  note w = failed_ingestion_reported_and_cleaned [where fs = ?fs, OF w1 w2 wf]
  from c1 c2 c3 c4 c w1 w2 w3 w4 w5 w6 w7 w show ?thesis by (intro conjI) simp_all
qed

section \<open>Properties of the ask endpoint\<close>

lemma db_uri_ro_suffix: "py_endswith (db_uri_ro db_path) ''?mode=ro&uri=true''"
  by (simp add: db_uri_ro_def py_endswith_def)

text \<open>
  Claim C1 says that the input given to the agent depends on \<open>top_k\<close> as well as on the
  question. The source builds the input from the question alone and reads \<open>top_k\<close>
  nowhere: changing \<open>top_k\<close> in a request changes neither the input of the agent nor
  anything else the endpoint does.
\<close>

theorem top_k_never_reaches_agent:
  "agent_input (query\<lparr>top_k := k\<rparr>) = agent_input query
   \<and> ask_question env base (query\<lparr>top_k := k\<rparr>) fs = ask_question env base query fs"
proof -
  have inp: "agent_input (query\<lparr>top_k := k\<rparr>) = agent_input query"
    by (simp add: agent_input_def)
  show ?thesis
    unfolding ask_question_def inp by simp
qed

text \<open>
  Claim C9. When no store file exists at the path derived from the session id, the ask
  endpoint fails with HTTP 404, whatever the agent would do.
\<close>

theorem ask_unknown_session_404:
  "fs (db_path_of base (session_id query)) = None \<Longrightarrow>
   ask_question env base query fs = Inl (HTTPException 404 (Lit ''Session not found''))"
  by (simp add: ask_question_def)

text \<open>A witness for C9: a question about a session in an empty file system.\<close>

theorem ask_unknown_session_404_witness:
  "(Map.empty :: string \<rightharpoonup> string)
     (db_path_of ''/srv/app''
        (session_id \<lparr>session_id = ''nosuch'', question = ''How many rows?'', top_k = 5\<rparr>)) = None
   \<and> ask_question (example_agent_env []) ''/srv/app''
        \<lparr>session_id = ''nosuch'', question = ''How many rows?'', top_k = 5\<rparr>
        (Map.empty :: string \<rightharpoonup> string)
      = Inl (HTTPException 404 (Lit ''Session not found''))"
  using ask_unknown_session_404
    [of "Map.empty :: string \<rightharpoonup> string" "''/srv/app''"
        "\<lparr>session_id = ''nosuch'', question = ''How many rows?'', top_k = 5\<rparr>"
        "example_agent_env []"]
  by simp

subsection \<open>The loop of step 6\<close>

lemma convert_rows_None: "convert_rows PNone = Inr PNone"
  by (simp add: convert_rows_def)

lemma scan_steps_find:
  "scan_steps le rows0 steps =
     (case find is_query_step steps of
        None \<Rightarrow> Inr rows0
      | Some step \<Rightarrow>
          (case parse_output le (step_output step) rows0 of
             Inl e \<Rightarrow> Inl e
           | Inr rows1 \<Rightarrow> convert_rows rows1))"
  by (induction steps) (simp_all add: is_query_step_def)

lemma parse_output_not_list:
  "\<not> looks_like_list output \<Longrightarrow> parse_output le output rows0 = Inr rows0"
  by (auto simp: looks_like_list_def parse_output_def split: pyval.splits)

lemma rows_after_parse:
  "looks_like_list output \<Longrightarrow>
   (case parse_output le output PNone of
      Inl e \<Rightarrow> PNone
    | Inr rows1 \<Rightarrow> (case convert_rows rows1 of Inl e \<Rightarrow> PNone | Inr rows2 \<Rightarrow> rows2))
   = rows_of_output le output"
  by (auto simp: looks_like_list_def parse_output_def rows_of_output_def convert_rows_None
           split: pyval.splits sum.splits)

lemma extract_rows_parsed:
  assumes "find is_query_step steps = Some step"
      and "step_output step = PStr s"
      and "py_startswith (py_strip s) ''[''"
      and "le s = Inr v"
  shows "extract_rows le steps = (case convert_rows v of Inl e \<Rightarrow> PNone | Inr rows1 \<Rightarrow> rows1)"
  using assms by (simp add: extract_rows_def scan_steps_find parse_output_def)

text \<open>
  Claim C3, as stated: \<open>rows\<close> comes from the first query entry, anywhere in the trace,
  whose output looks like a list, so that a later list-shaped output is parsed when an
  earlier query entry had another output. The source leaves the loop at the first query
  entry whatever its output: for a failed query followed by a query that returned
  \<open>[(7,)]\<close>, \<open>rows\<close> is \<open>None\<close>, where the claim gives one record.
\<close>

theorem extract_rows_later_list_counterexample:
  "extract_rows example_literal_eval
     [PTuple [query_action ''SELECT * FROM sales'', PStr ''Error: no such table: sales''],
      PTuple [query_action ''SELECT id FROM orders'', PStr ''[(7,)]'']] = PNone
   \<and> spec_extract_rows example_literal_eval
     [PTuple [query_action ''SELECT * FROM sales'', PStr ''Error: no such table: sales''],
      PTuple [query_action ''SELECT id FROM orders'', PStr ''[(7,)]'']]
     = PList [PDict [(PStr ''col_1'', PInt 7)]]"
  by code_simp

text \<open>
  Claim C3, amended: \<open>rows\<close> is decided by the first query entry of the trace alone. If
  there is none, or if its output is not a string that begins with \<open>[\<close> once trimmed,
  \<open>rows\<close> is \<open>None\<close>; otherwise \<open>rows\<close> is what parsing and converting that output
  gives. No later entry is inspected.
\<close>

theorem extract_rows_first_query_step:
  "extract_rows le steps =
     (case find is_query_step steps of
        None \<Rightarrow> PNone
      | Some step \<Rightarrow>
          if looks_like_list (step_output step) then rows_of_output le (step_output step)
          else PNone)"
proof (cases "find is_query_step steps")
  case None
  then show ?thesis by (simp add: extract_rows_def scan_steps_find)
next
  case (Some step)
  show ?thesis
  proof (cases "looks_like_list (step_output step)")
    case True
    from rows_after_parse [OF True, of le] Some show ?thesis
      by (simp add: extract_rows_def scan_steps_find True split: sum.splits)
  next
    case False
    with Some show ?thesis
      by (simp add: extract_rows_def scan_steps_find parse_output_not_list convert_rows_None)
  qed
qed

subsection \<open>Column names and the conversion of rows\<close>

declare str_nat.simps [simp del]

lemma str_nat_nonempty: "str_nat n \<noteq> []"
  by (subst str_nat.simps) simp

lemma digit_char_inj: "a < 10 \<Longrightarrow> b < 10 \<Longrightarrow> digit_char a = digit_char b \<Longrightarrow> a = b"
  by (simp add: digit_char_def char_of_eq_iff take_bit_nat_eq_self)

lemma str_nat_inj: "str_nat n = str_nat m \<Longrightarrow> n = m"
proof (induction n arbitrary: m rule: str_nat.induct)
  case (1 n)
  show ?case
  proof (cases "n < 10")
    case True
    then have sn: "str_nat n = [digit_char n]" by (subst str_nat.simps) simp
    show ?thesis
    proof (cases "m < 10")
      case mT: True
      then have "str_nat m = [digit_char m]" by (subst str_nat.simps) simp
      with sn "1.prems" True mT show ?thesis by (simp add: digit_char_inj)
    next
      case mF: False
      then have "str_nat m = str_nat (m div 10) @ [digit_char (m mod 10)]"
        by (subst str_nat.simps) simp
      with sn "1.prems" str_nat_nonempty [of "m div 10"] show ?thesis by simp
    qed
  next
    case False
    then have sn: "str_nat n = str_nat (n div 10) @ [digit_char (n mod 10)]"
      by (subst str_nat.simps) simp
    show ?thesis
    proof (cases "m < 10")
      case mT: True
      then have "str_nat m = [digit_char m]" by (subst str_nat.simps) simp
      with sn "1.prems" str_nat_nonempty [of "n div 10"] show ?thesis by simp
    next
      case mF: False
      then have "str_nat m = str_nat (m div 10) @ [digit_char (m mod 10)]"
        by (subst str_nat.simps) simp
      with sn "1.prems" have eq: "str_nat (n div 10) = str_nat (m div 10)"
        and d: "digit_char (n mod 10) = digit_char (m mod 10)" by simp_all
      from "1.IH" [OF False eq] have q: "n div 10 = m div 10" .
      from d have r: "n mod 10 = m mod 10" by (simp add: digit_char_inj)
      from q r show ?thesis by (metis div_mult_mod_eq)
    qed
  qed
qed

lemma column_names_length: "length (column_names n) = n"
  by (simp add: column_names_def)

lemma column_names_nth: "i < n \<Longrightarrow> column_names n ! i = ''col_'' @ str_nat (i + 1)"
  by (simp add: column_names_def)

lemma distinct_column_names: "distinct (column_names n)"
  by (auto simp: column_names_def distinct_map inj_on_def dest: str_nat_inj)

lemma distinct_column_keys: "distinct (map PStr (column_names n))"
  by (simp add: distinct_map distinct_column_names inj_on_def)

lemma update_fresh: "k \<notin> fst ` set d \<Longrightarrow> AList.update k v d = d @ [(k, v)]"
  by (induction d) auto

lemma foldl_update_distinct:
  "distinct (map fst (d @ ps)) \<Longrightarrow> foldl (\<lambda>d (k, v). AList.update k v d) d ps = d @ ps"
proof (induction ps arbitrary: d)
  case Nil
  then show ?case by simp
next
  case (Cons p ps)
  obtain k v where p: "p = (k, v)" by (cases p)
  from Cons.prems p have fresh: "k \<notin> fst ` set d" by auto
  from Cons.prems p have "distinct (map fst ((d @ [(k, v)]) @ ps))" by simp
  from Cons.IH [OF this] fresh p show ?case by (simp add: update_fresh)
qed

lemma py_dict_zip: "distinct ks \<Longrightarrow> py_dict (zip ks vs) = zip ks vs"
proof -
  assume d: "distinct ks"
  have "map fst (zip ks vs) = take (min (length ks) (length vs)) ks"
    by (simp add: map_fst_zip_take)
  with d have "distinct (map fst ([] @ zip ks vs))" by simp
  from foldl_update_distinct [OF this] show ?thesis by (simp add: py_dict_def)
qed

lemma rows_to_dicts_those:
  "rows_to_dicts (column_names n) rs =
     (case those (map py_iter rs) of
        None \<Rightarrow> Inl TypeError
      | Some vss \<Rightarrow> Inr (map (\<lambda>vs. PDict (zip (map PStr (column_names n)) vs)) vss))"
  by (induction rs)
     (auto simp: row_to_dict_def py_dict_zip distinct_column_keys split: option.splits sum.splits)

lemma convert_rows_nonempty:
  "convert_rows (PList (r0 # rest)) =
     (if is_list_or_tuple r0 then
        (case those (map py_iter (r0 # rest)) of
           None \<Rightarrow> Inl TypeError
         | Some vss \<Rightarrow>
             Inr (PList (map (\<lambda>vs. PDict (zip (map PStr (column_names (length (seq_items r0)))) vs))
                    vss)))
      else Inr (PList (r0 # rest)))"
  unfolding convert_rows_def rows_to_dicts_those
  by (simp split: option.splits del: those.simps)

text \<open>
  Claim C8, as stated: every parsed output that is a non-empty list whose first element
  is a list or tuple has every row converted into a record. A row that cannot be
  iterated makes \<open>zip\<close> raise, and the outer \<open>except\<close> sets \<open>rows\<close> to \<open>None\<close>: the
  parsed output \<open>[(1, 2), 3]\<close> gives no records at all.
\<close>

theorem extract_rows_non_iterable_row_counterexample:
  "example_literal_eval ''[(1, 2), 3]'' = Inr (PList [PTuple [PInt 1, PInt 2], PInt 3])
   \<and> convert_rows (PList [PTuple [PInt 1, PInt 2], PInt 3]) = Inl TypeError
   \<and> extract_rows example_literal_eval
       [PTuple [query_action ''SELECT a, b FROM t'', PStr ''[(1, 2), 3]'']] = PNone"
  by code_simp

lemma those_as_str_item_zip:
  "those (map as_str_item (zip (map PStr cols) vs)) = Some (zip cols vs)"
proof (induction cols arbitrary: vs)
  case Nil
  show ?case by simp
next
  case (Cons c cols)
  then show ?case by (cases vs) (simp_all add: as_str_item_def)
qed

lemma as_rows_records:
  "as_rows (PList (map (\<lambda>vs. PDict (zip (map PStr cols) vs)) vss))
     = Some (Some (map (zip cols) vss))"
proof -
  have "those (map as_str_dict (map (\<lambda>vs. PDict (zip (map PStr cols) vs)) vss))
          = Some (map (zip cols) vss)"
    by (induction vss) (simp_all add: those_as_str_item_zip)
  then show ?thesis by simp
qed

text \<open>
  Claim C8, amended: let the output of the first query entry parse to a non-empty list
  with first element \<open>r0\<close>. If \<open>r0\<close> is a list or tuple of length \<open>N\<close> and every element
  of the list can be iterated, each row becomes the record that pairs \<open>col_1\<close>, ...,
  \<open>col_N\<close> with its items by position (up to the shorter of the two); if some element
  cannot be iterated, \<open>rows\<close> is \<open>None\<close>. If \<open>r0\<close> is already a mapping, the parsed list
  is passed through unchanged.
\<close>

theorem extract_rows_positional_rows:
  assumes "find is_query_step steps = Some step"
      and "step_output step = PStr s"
      and "py_startswith (py_strip s) ''[''"
      and "le s = Inr (PList (r0 # rest))"
  shows "(is_list_or_tuple r0 \<longrightarrow>
            extract_rows le steps =
              (case those (map py_iter (r0 # rest)) of
                 None \<Rightarrow> PNone
               | Some vss \<Rightarrow>
                   PList (map (\<lambda>vs. PDict (zip (map PStr (column_names (length (seq_items r0)))) vs))
                     vss)))
       \<and> (is_dict r0 \<longrightarrow> extract_rows le steps = PList (r0 # rest))"
proof -
  have "is_dict r0 \<Longrightarrow> \<not> is_list_or_tuple r0" by (cases r0) simp_all
  then show ?thesis
    unfolding extract_rows_parsed [where le = le, OF assms] convert_rows_nonempty
    by (auto split: option.splits simp del: those.simps)
qed

text \<open>
  A witness for C8: the trace output \<open>[(1, "a"), (2, "b")]\<close> becomes the two records
  \<open>{"col_1": 1, "col_2": "a"}\<close> and \<open>{"col_1": 2, "col_2": "b"}\<close>, and the trace output
  \<open>[{"id": 1}, {"id": 2}]\<close>, whose first element is a mapping, is passed through.
\<close>

theorem extract_rows_positional_rows_witness:
  "find is_query_step
     [PTuple [query_action ''SELECT id, name FROM t'', PStr ''[(1, \"a\"), (2, \"b\")]'']]
     = Some (PTuple [query_action ''SELECT id, name FROM t'', PStr ''[(1, \"a\"), (2, \"b\")]''])
   \<and> step_output (PTuple [query_action ''SELECT id, name FROM t'', PStr ''[(1, \"a\"), (2, \"b\")]''])
     = PStr ''[(1, \"a\"), (2, \"b\")]''
   \<and> py_startswith (py_strip ''[(1, \"a\"), (2, \"b\")]'') ''[''
   \<and> example_literal_eval ''[(1, \"a\"), (2, \"b\")]''
     = Inr (PList [PTuple [PInt 1, PStr ''a''], PTuple [PInt 2, PStr ''b'']])
   \<and> is_list_or_tuple (PTuple [PInt 1, PStr ''a''])
   \<and> extract_rows example_literal_eval
       [PTuple [query_action ''SELECT id, name FROM t'', PStr ''[(1, \"a\"), (2, \"b\")]'']]
     = PList [PDict [(PStr ''col_1'', PInt 1), (PStr ''col_2'', PStr ''a'')],
              PDict [(PStr ''col_1'', PInt 2), (PStr ''col_2'', PStr ''b'')]]
   \<and> find is_query_step
     [PTuple [query_action ''SELECT id FROM t'', PStr ''[{\"id\": 1}, {\"id\": 2}]'']]
     = Some (PTuple [query_action ''SELECT id FROM t'', PStr ''[{\"id\": 1}, {\"id\": 2}]''])
   \<and> step_output (PTuple [query_action ''SELECT id FROM t'', PStr ''[{\"id\": 1}, {\"id\": 2}]''])
     = PStr ''[{\"id\": 1}, {\"id\": 2}]''
   \<and> py_startswith (py_strip ''[{\"id\": 1}, {\"id\": 2}]'') ''[''
   \<and> example_literal_eval ''[{\"id\": 1}, {\"id\": 2}]''
     = Inr (PList [PDict [(PStr ''id'', PInt 1)], PDict [(PStr ''id'', PInt 2)]])
   \<and> is_dict (PDict [(PStr ''id'', PInt 1)])
   \<and> extract_rows example_literal_eval
       [PTuple [query_action ''SELECT id FROM t'', PStr ''[{\"id\": 1}, {\"id\": 2}]'']]
     = PList [PDict [(PStr ''id'', PInt 1)], PDict [(PStr ''id'', PInt 2)]]"
proof -
  let ?step = "PTuple [query_action ''SELECT id, name FROM t'', PStr ''[(1, \"a\"), (2, \"b\")]'']"
  have h1: "find is_query_step [?step] = Some ?step" by code_simp
  have h2: "step_output ?step = PStr ''[(1, \"a\"), (2, \"b\")]''" by code_simp
  have h3: "py_startswith (py_strip ''[(1, \"a\"), (2, \"b\")]'') ''[''" by code_simp
  have h4: "example_literal_eval ''[(1, \"a\"), (2, \"b\")]''
     = Inr (PList [PTuple [PInt 1, PStr ''a''], PTuple [PInt 2, PStr ''b'']])" by code_simp
  have h5: "is_list_or_tuple (PTuple [PInt 1, PStr ''a''])" by simp
  have cols: "column_names (Suc (Suc 0)) = [''col_1'', ''col_2'']" by code_simp
  from extract_rows_positional_rows [where le = example_literal_eval, OF h1 h2 h3 h4] h5 have r:
    "extract_rows example_literal_eval [?step]
     = PList [PDict [(PStr ''col_1'', PInt 1), (PStr ''col_2'', PStr ''a'')],
              PDict [(PStr ''col_1'', PInt 2), (PStr ''col_2'', PStr ''b'')]]"
    by (simp add: cols)
  let ?dstep = "PTuple [query_action ''SELECT id FROM t'', PStr ''[{\"id\": 1}, {\"id\": 2}]'']"
  have d1: "find is_query_step [?dstep] = Some ?dstep" by code_simp
  have d2: "step_output ?dstep = PStr ''[{\"id\": 1}, {\"id\": 2}]''" by code_simp
  have d3: "py_startswith (py_strip ''[{\"id\": 1}, {\"id\": 2}]'') ''[''" by code_simp
  have d4: "example_literal_eval ''[{\"id\": 1}, {\"id\": 2}]''
     = Inr (PList [PDict [(PStr ''id'', PInt 1)], PDict [(PStr ''id'', PInt 2)]])" by code_simp
  have d5: "is_dict (PDict [(PStr ''id'', PInt 1)])" by simp
  from extract_rows_positional_rows [where le = example_literal_eval, OF d1 d2 d3 d4] d5 have rd:
    "extract_rows example_literal_eval [?dstep]
     = PList [PDict [(PStr ''id'', PInt 1)], PDict [(PStr ''id'', PInt 2)]]"
    by simp
  from h1 h2 h3 h4 h5 r d1 d2 d3 d4 d5 rd show ?thesis by (intro conjI)
qed

text \<open>
  Claim C10. When the output of the first query entry is a list-shaped string that
  parses to the empty list, the conversion is skipped and \<open>rows\<close> is the empty list: the
  response, which is built when the answer and the SQL texts have their declared types,
  has the empty list as its \<open>rows\<close>, not \<open>None\<close>.
\<close>

theorem ask_empty_list_rows:
  assumes "fs (db_path_of base (session_id query)) \<noteq> None"
      and "create_agent env (db_uri_ro (db_path_of base (session_id query))) = Inr agent"
      and "invoke env agent (agent_input query) = Inr result"
      and "py_iter (dict_get result ''intermediate_steps'' (PList [])) = Some steps"
      and "find is_query_step steps = Some step"
      and "step_output step = PStr s"
      and "py_startswith (py_strip s) ''[''"
      and "literal_eval env s = Inr (PList [])"
  shows "extract_rows (literal_eval env) steps = PList []
       \<and> ask_question env base query fs =
           (case (as_str (dict_get result ''output'' (PStr [])),
                  those (map as_str (collect_sql steps))) of
              (Some a, Some qs) \<Rightarrow>
                Inr \<lparr>answer = a, sql_queries = qs, rows = Some [], raw_agent_output = result\<rparr>
            | _ \<Rightarrow> Inl ValidationError)"
proof -
  have "convert_rows (PList []) = Inr (PList [])" by (simp add: convert_rows_def)
  with extract_rows_parsed [where le = "literal_eval env", OF assms(5-8)]
  have rows: "extract_rows (literal_eval env) steps = PList []" by simp
  with assms(1-4) show ?thesis
    by (simp add: ask_question_def Let_def new_QueryResponse_def split: option.splits)
qed

text \<open>
  A witness for C10: a session whose store exists, and an agent whose only query returned
  the empty list.
\<close>

theorem ask_empty_list_rows_witness:
  "example_fs (db_path_of ''/srv/app'' (session_id example_request)) \<noteq> None
   \<and> create_agent (example_agent_env example_empty_result)
        (db_uri_ro (db_path_of ''/srv/app'' (session_id example_request))) = Inr ()
   \<and> invoke (example_agent_env example_empty_result) () (agent_input example_request)
        = Inr example_empty_result
   \<and> py_iter (dict_get example_empty_result ''intermediate_steps'' (PList []))
        = Some [PTuple [query_action ''SELECT * FROM orders WHERE late = 1'', PStr ''[]'']]
   \<and> find is_query_step [PTuple [query_action ''SELECT * FROM orders WHERE late = 1'', PStr ''[]'']]
        = Some (PTuple [query_action ''SELECT * FROM orders WHERE late = 1'', PStr ''[]''])
   \<and> step_output (PTuple [query_action ''SELECT * FROM orders WHERE late = 1'', PStr ''[]''])
        = PStr ''[]''
   \<and> py_startswith (py_strip ''[]'') ''[''
   \<and> literal_eval (example_agent_env example_empty_result) ''[]'' = Inr (PList [])
   \<and> ask_question (example_agent_env example_empty_result) ''/srv/app'' example_request example_fs
        = Inr \<lparr>answer = ''No orders are late.'',
               sql_queries = [''SELECT * FROM orders WHERE late = 1''],
               rows = Some [],
               raw_agent_output = example_empty_result\<rparr>"
proof -
  let ?env = "example_agent_env example_empty_result"
  let ?step = "PTuple [query_action ''SELECT * FROM orders WHERE late = 1'', PStr ''[]'']"
  have h1: "example_fs (db_path_of ''/srv/app'' (session_id example_request)) \<noteq> None"
    by (simp add: example_fs_def example_request_def)
  have h2: "create_agent ?env (db_uri_ro (db_path_of ''/srv/app'' (session_id example_request))) = Inr ()"
    by (simp add: example_agent_env_def)
  have h3: "invoke ?env () (agent_input example_request) = Inr example_empty_result"
    by (simp add: example_agent_env_def)
  have h4: "py_iter (dict_get example_empty_result ''intermediate_steps'' (PList [])) = Some [?step]"
    by code_simp
  have h5: "find is_query_step [?step] = Some ?step" by code_simp
  have h6: "step_output ?step = PStr ''[]''" by code_simp
  have h7: "py_startswith (py_strip ''[]'') ''[''" by code_simp
  have h8: "literal_eval ?env ''[]'' = Inr (PList [])" by code_simp
  have a: "as_str (dict_get example_empty_result ''output'' (PStr [])) = Some ''No orders are late.''"
    by code_simp
  have q: "those (map as_str (collect_sql [?step])) = Some [''SELECT * FROM orders WHERE late = 1'']"
    by code_simp
  have "ask_question ?env ''/srv/app'' example_request example_fs
        = (case (as_str (dict_get example_empty_result ''output'' (PStr [])),
                 those (map as_str (collect_sql [?step]))) of
             (Some a, Some qs) \<Rightarrow>
               Inr \<lparr>answer = a, sql_queries = qs, rows = Some [],
                     raw_agent_output = example_empty_result\<rparr>
           | _ \<Rightarrow> Inl ValidationError)"
    using ask_empty_list_rows
      [where fs = example_fs and base = "''/srv/app''", OF h1 h2 h3 h4 h5 h6 h7 h8]
    by (rule conjunct2)
  then have r: "ask_question ?env ''/srv/app'' example_request example_fs
        = Inr \<lparr>answer = ''No orders are late.'',
               sql_queries = [''SELECT * FROM orders WHERE late = 1''],
               rows = Some [],
               raw_agent_output = example_empty_result\<rparr>"
    unfolding a q by simp
  from h1 h2 h3 h4 h5 h6 h7 h8 r show ?thesis by (intro conjI)
qed

end
